theory Spec2Isabelle
  imports Complex_Main "HOL-Library.Word" "HOL-Library.Sublist"
begin

section \<open>Values of the host platform\<close>

text \<open>
  The application is TypeScript running in a browser. Strings are modelled as
  \<^typ>\<open>string\<close>, one \<^typ>\<open>char\<close> per code unit (code units up to 255); \<open>null\<close> and
  \<open>undefined\<close> are \<open>None\<close> of an option type; file bytes are 8-bit words.
\<close>

type_synonym byte = "8 word"

text \<open>
  A \<open>File\<close> as the code uses it: its declared MIME type (\<open>file.type\<close>) and the bytes a
  read of it delivers. \<open>file_bytes = None\<close> is a file whose underlying read fails (removed
  or unreadable after it was chosen).
\<close>

record File =
  file_type :: string
  file_bytes :: "byte list option"

text \<open>The values \<open>JSON.parse\<close> can return.\<close>

datatype json =
    JNull
  | JBool bool
  | JNum real
  | JStr string
  | JArr "json list"
  | JObj "(string \<times> json) list"

text \<open>JavaScript truthiness, on the values that occur.\<close>

fun truthy :: "json \<Rightarrow> bool" where
  "truthy JNull = False"
| "truthy (JBool b) = b"
| "truthy (JNum n) = (n \<noteq> 0)"
| "truthy (JStr s) = (s \<noteq> [])"
| "truthy (JArr xs) = True"
| "truthy (JObj kvs) = True"

definition truthy_string :: "string option \<Rightarrow> bool" where
  "truthy_string v = (case v of None \<Rightarrow> False | Some s \<Rightarrow> s \<noteq> [])"

text \<open>
  A thrown value: an instance of \<open>Error\<close> with its message; \<open>null\<close> or \<open>undefined\<close>, of
  which no property can be read; or any other value, with its \<open>message\<close> property when
  it has one.
\<close>

datatype thrown = JsError string | NonError "string option" | Nullish

text \<open>
  The outcome of a promise. \<open>Pending\<close> is a promise that is never settled: an \<open>await\<close> on
  it never resumes.
\<close>

datatype 'a promise = Pending | Resolved 'a | Rejected thrown

section \<open>The identification result\<close>

text \<open>
  Modelled from the spec: the type \<open>TreeData\<close> of \<open>types.ts\<close>, which is not among the
  sources. The spec's data model gives it the required strings \<open>commonName\<close>,
  \<open>scientificName\<close>, \<open>description\<close> and the optional sequence of strings \<open>careTips\<close>.
\<close>

record TreeData =
  commonName :: string
  scientificName :: string
  description :: string
  careTips :: "string list option"

fun as_string :: "json \<Rightarrow> string option" where
  "as_string (JStr s) = Some s"
| "as_string _ = None"

fun as_strings :: "json list \<Rightarrow> string list option" where
  "as_strings [] = Some []"
| "as_strings (j # js) =
     (case as_string j of
        None \<Rightarrow> None
      | Some s \<Rightarrow> (case as_strings js of None \<Rightarrow> None | Some ss \<Rightarrow> Some (s # ss)))"

definition required_string :: "(string \<times> json) list \<Rightarrow> string \<Rightarrow> string option" where
  "required_string kvs k = (case map_of kvs k of None \<Rightarrow> None | Some j \<Rightarrow> as_string j)"

text \<open>
  \<open>as_TreeData j\<close> reads a parsed JSON value at the type \<open>TreeData\<close>; it is \<open>None\<close> when
  the value does not inhabit that type. The code itself never performs this check
  (\<open>identifyTree\<close> returns what \<open>JSON.parse\<close> produced).
\<close>

definition as_TreeData :: "json \<Rightarrow> TreeData option" where
  "as_TreeData j =
     (case j of
        JObj kvs \<Rightarrow>
          (case (required_string kvs ''commonName'',
                 required_string kvs ''scientificName'',
                 required_string kvs ''description'') of
             (Some c, Some s, Some d) \<Rightarrow>
               (case map_of kvs ''careTips'' of
                  None \<Rightarrow>
                    Some \<lparr>commonName = c, scientificName = s, description = d, careTips = None\<rparr>
                | Some (JArr xs) \<Rightarrow>
                    (case as_strings xs of
                       None \<Rightarrow> None
                     | Some tips \<Rightarrow>
                         Some \<lparr>commonName = c, scientificName = s, description = d,
                               careTips = Some tips\<rparr>)
                | Some _ \<Rightarrow> None)
           | _ \<Rightarrow> None)
      | _ \<Rightarrow> None)"

section \<open>The component state\<close>

text \<open>
  The four \<open>useState\<close> cells of \<open>App\<close>, the memoised \<open>previewUrl\<close>, and the object URLs
  the browser holds for the page: \<open>URL.createObjectURL\<close> hands out a fresh URL (here
  numbered by \<open>urlCount\<close>) and keeps it alive until \<open>URL.revokeObjectURL\<close>.
\<close>

record ui =
  selectedFile :: "File option"
  treeData :: json
  isLoading :: bool
  error :: "string option"
  previewUrl :: "nat option"
  liveUrls :: "nat set"
  urlCount :: nat

definition initial_ui :: ui where
  "initial_ui =
     \<lparr>selectedFile = None, treeData = JNull, isLoading = False, error = None,
      previewUrl = None, liveUrls = {}, urlCount = 0\<rparr>"

text \<open>
  The \<open>useMemo\<close> of \<open>previewUrl\<close>, run when its dependency \<open>selectedFile\<close> has changed:
  \<open>null\<close> without a selected file, \<open>URL.createObjectURL(selectedFile)\<close> otherwise.
\<close>

definition useMemo_previewUrl :: "ui \<Rightarrow> ui" where
  "useMemo_previewUrl s =
     (case selectedFile s of
        None \<Rightarrow> s\<lparr>previewUrl := None\<rparr>
      | Some f \<Rightarrow>
          s\<lparr>previewUrl := Some (urlCount s),
            liveUrls := insert (urlCount s) (liveUrls s),
            urlCount := Suc (urlCount s)\<rparr>)"

definition setSelectedFile :: "File option \<Rightarrow> ui \<Rightarrow> ui" where
  "setSelectedFile v s = useMemo_previewUrl (s\<lparr>selectedFile := v\<rparr>)"

text \<open>
  \<open>ImageUploader.handleFileChange\<close>: \<open>event.target.files?.[0]\<close> is the first chosen file,
  if any; \<open>onImageSelect\<close> is \<open>setSelectedFile\<close>.
\<close>

definition handleFileChange :: "File list \<Rightarrow> ui \<Rightarrow> ui" where
  "handleFileChange files s =
     (case files of [] \<Rightarrow> s | f # _ \<Rightarrow> setSelectedFile (Some f) s)"

text \<open>
  \<open>handleReset\<close>: the four setters, then the object URL of the current render is revoked
  when there is one.
\<close>

definition revokeObjectURL :: "nat \<Rightarrow> ui \<Rightarrow> ui" where
  "revokeObjectURL u s = s\<lparr>liveUrls := liveUrls s - {u}\<rparr>"

definition handleReset :: "ui \<Rightarrow> ui" where
  "handleReset s =
     (let s1 = setSelectedFile None s;
          s2 = s1\<lparr>treeData := JNull\<rparr>;
          s3 = s2\<lparr>error := None\<rparr>;
          s4 = s3\<lparr>isLoading := False\<rparr>
      in case previewUrl s of None \<Rightarrow> s4 | Some u \<Rightarrow> revokeObjectURL u s4)"

text \<open>
  The synchronous part of \<open>handleIdentify\<close>, up to the \<open>await\<close>: the new state and the
  file \<open>identifyTree\<close> is called with, if it is called.
\<close>

definition handleIdentify_begin :: "ui \<Rightarrow> ui \<times> File option" where
  "handleIdentify_begin s =
     (case selectedFile s of
        None \<Rightarrow> (s, None)
      | Some f \<Rightarrow> (s\<lparr>isLoading := True, error := None, treeData := JNull\<rparr>, Some f))"

section \<open>What is rendered\<close>

record result_view =
  name_heading :: string
  latin_line :: string
  body_text :: string
  tip_items :: "string list option"

text \<open>
  \<open>ResultDisplay\<close>: the three texts, and the list of care tips when
  \<open>data.careTips && data.careTips.length > 0\<close>, one item per tip in the order of the array.
\<close>

definition ResultDisplay :: "TreeData \<Rightarrow> result_view" where
  "ResultDisplay d =
     \<lparr>name_heading = commonName d, latin_line = scientificName d, body_text = description d,
      tip_items =
        (case careTips d of
           None \<Rightarrow> None
         | Some tips \<Rightarrow> if length tips > 0 then Some (map (\<lambda>tip. tip) tips) else None)\<rparr>"

text \<open>
  The result region: nothing when \<open>treeData\<close> is falsy, the card when it is a \<open>TreeData\<close>.
  \<open>IllTyped\<close> marks a truthy value that is not a \<open>TreeData\<close>: the typed component is not
  written for it, and what it draws of such a value, or that rendering throws, is not
  described here.
\<close>

datatype result_region = NoCard | Card result_view | IllTyped

record view =
  identifyDisabled :: bool
  identifyLabel :: string
  showReset :: bool
  showSpinner :: bool
  errorBanner :: "string option"
  resultCard :: result_region
  showPrompt :: bool

definition render :: "ui \<Rightarrow> view" where
  "render s =
     \<lparr>identifyDisabled = (\<not> (selectedFile s \<noteq> None) \<or> isLoading s),
      identifyLabel = (if isLoading s then ''Identifying...'' else ''Identify Tree''),
      showReset = (selectedFile s \<noteq> None \<or> truthy (treeData s) \<or> truthy_string (error s)),
      showSpinner = isLoading s,
      errorBanner = (if truthy_string (error s) then error s else None),
      resultCard =
        (if truthy (treeData s)
         then (case as_TreeData (treeData s) of None \<Rightarrow> IllTyped | Some d \<Rightarrow> Card (ResultDisplay d))
         else NoCard),
      showPrompt =
        (\<not> isLoading s \<and> \<not> truthy_string (error s) \<and> \<not> truthy (treeData s)
         \<and> \<not> (selectedFile s \<noteq> None))\<rparr>"

section \<open>String functions of the platform\<close>

text \<open>\<open>s.split(c)\<close> for a one-character separator: the segments between the separators.\<close>

fun split_on :: "char \<Rightarrow> string \<Rightarrow> string list" where
  "split_on c [] = [[]]"
| "split_on c (x # xs) =
     (if x = c then [] # split_on c xs
      else (case split_on c xs of [] \<Rightarrow> [[x]] | seg # segs \<Rightarrow> (x # seg) # segs))"

text \<open>Indexing an array: \<open>undefined\<close> past its end.\<close>

definition at_index :: "'a list \<Rightarrow> nat \<Rightarrow> 'a option" where
  "at_index xs i = (if i < length xs then Some (xs ! i) else None)"

text \<open>
  \<open>String.prototype.trim\<close>: white space and line terminators are removed at both ends
  (within the code units modelled: TAB, LF, VT, FF, CR, SP and NBSP).
\<close>

definition is_space :: "char \<Rightarrow> bool" where
  "is_space c = (of_char c \<in> {9, 10, 11, 12, 13, 32, 160 :: nat})"

definition trim :: "string \<Rightarrow> string" where
  "trim s = rev (dropWhile is_space (rev (dropWhile is_space s)))"

section \<open>Base64 and data URLs\<close>

text \<open>
  \<open>FileReader.readAsDataURL\<close> belongs to the browser, not to the repository. Its result is
  modelled after the File API and RFC 2397 / RFC 4648: \<open>data:\<close>, the file's type,
  \<open>;base64,\<close> and the base64 text of the bytes; \<open>null\<close> when the read fails.
\<close>

definition b64_alphabet :: string where
  "b64_alphabet = ''ABCDEFGHIJKLMNOPQRSTUVWXYZabcdefghijklmnopqrstuvwxyz0123456789+/''"

definition b64_char :: "nat \<Rightarrow> char" where
  "b64_char n = b64_alphabet ! n"

fun base64 :: "byte list \<Rightarrow> string" where
  "base64 [] = []"
| "base64 [a] =
     [b64_char (unat a div 4), b64_char ((unat a mod 4) * 16), CHR ''='', CHR ''='']"
| "base64 [a, b] =
     [b64_char (unat a div 4), b64_char ((unat a mod 4) * 16 + unat b div 16),
      b64_char ((unat b mod 16) * 4), CHR ''='']"
| "base64 (a # b # c # rest) =
     b64_char (unat a div 4) # b64_char ((unat a mod 4) * 16 + unat b div 16) #
     b64_char ((unat b mod 16) * 4 + unat c div 64) # b64_char (unat c mod 64) #
     base64 rest"

fun index_of :: "'a \<Rightarrow> 'a list \<Rightarrow> nat option" where
  "index_of x [] = None"
| "index_of x (y # ys) = (if x = y then Some 0 else map_option Suc (index_of x ys))"

definition b64_value :: "char \<Rightarrow> nat option" where
  "b64_value c = index_of c b64_alphabet"

text \<open>The three bytes of four 6-bit values.\<close>

definition first_byte :: "nat \<Rightarrow> nat \<Rightarrow> byte" where
  "first_byte v1 v2 = of_nat (v1 * 4 + v2 div 16)"

definition second_byte :: "nat \<Rightarrow> nat \<Rightarrow> byte" where
  "second_byte v2 v3 = of_nat ((v2 mod 16) * 16 + v3 div 4)"

definition third_byte :: "nat \<Rightarrow> nat \<Rightarrow> byte" where
  "third_byte v3 v4 = of_nat ((v3 mod 4) * 64 + v4)"

fun base64_decode :: "string \<Rightarrow> byte list option" where
  "base64_decode [] = Some []"
| "base64_decode (c1 # c2 # c3 # c4 # rest) =
     (case (b64_value c1, b64_value c2) of
        (Some v1, Some v2) \<Rightarrow>
          (if c3 = CHR ''='' \<and> c4 = CHR ''='' \<and> rest = []
           then Some [first_byte v1 v2]
           else (case b64_value c3 of
                   None \<Rightarrow> None
                 | Some v3 \<Rightarrow>
                     (if c4 = CHR ''='' \<and> rest = []
                      then Some [first_byte v1 v2, second_byte v2 v3]
                      else (case b64_value c4 of
                              None \<Rightarrow> None
                            | Some v4 \<Rightarrow>
                                (case base64_decode rest of
                                   None \<Rightarrow> None
                                 | Some bs \<Rightarrow>
                                     Some (first_byte v1 v2 # second_byte v2 v3 #
                                           third_byte v3 v4 # bs))))))
      | _ \<Rightarrow> None)"
| "base64_decode _ = None"

definition readAsDataURL :: "File \<Rightarrow> string option" where
  "readAsDataURL f =
     (case file_bytes f of
        None \<Rightarrow> None
      | Some bytes \<Rightarrow> Some (''data:'' @ file_type f @ '';base64,'' @ base64 bytes))"

section \<open>The encoder\<close>

text \<open>The parts of a request: the image part \<open>{inlineData: {data, mimeType}}\<close> and \<open>{text}\<close>.\<close>

datatype part =
    InlineData (data: "string option") (mimeType: string)
  | Text string

text \<open>
  The \<open>onloadend\<close> handler, run with \<open>reader.result\<close> once the read has ended, with success
  or not: \<open>resolve((reader.result as string).split(',')[1])\<close>. On \<open>null\<close> the call of
  \<open>split\<close> throws inside the event handler, where nothing catches it and \<open>resolve\<close> is not
  reached.
\<close>

datatype handler_result = Resolves "string option" | Throws

definition onloadend :: "string option \<Rightarrow> handler_result" where
  "onloadend result =
     (case result of
        None \<Rightarrow> Throws
      | Some s \<Rightarrow> Resolves (at_index (split_on CHR '','' s) 1))"

text \<open>
  \<open>fileToGenerativePart\<close>: the promise is built with \<open>resolve\<close> only, so it is settled when
  the handler resolves it and stays pending otherwise.
\<close>

definition base64EncodedDataPromise :: "File \<Rightarrow> string option promise" where
  "base64EncodedDataPromise f =
     (case onloadend (readAsDataURL f) of
        Resolves d \<Rightarrow> Resolved d
      | Throws \<Rightarrow> Pending)"

definition fileToGenerativePart :: "File \<Rightarrow> part promise" where
  "fileToGenerativePart f =
     (case base64EncodedDataPromise f of
        Pending \<Rightarrow> Pending
      | Rejected e \<Rightarrow> Rejected e
      | Resolved d \<Rightarrow> Resolved (InlineData d (file_type f)))"

section \<open>The identification client\<close>

datatype schema_type = OBJECT | STRING | ARRAY

datatype schema =
  Schema (schema_type: schema_type) (schema_description: "string option")
    (properties: "(string \<times> schema) list") (items: "schema option")
    (required: "string list")

record config =
  responseMimeType :: string
  responseSchema :: schema

record content =
  parts :: "part list"

record request =
  model :: string
  contents :: "content list"
  config :: config

text \<open>
  Of the response only \<open>response.text\<close> is used. The SDK leaves it \<open>undefined\<close> when the
  answer carries no text.
\<close>

record response =
  response_text :: "string option"

text \<open>
  What the code reaches outside itself: the SDK call \<open>ai.models.generateContent\<close>;
  \<open>JSON.parse\<close>, which throws on text that is not JSON; and the message the engine gives
  the \<open>TypeError\<close> it throws when \<open>trim\<close> is read of \<open>undefined\<close>.
\<close>

record env =
  generateContent :: "request \<Rightarrow> response promise"
  JSON_parse :: "string \<Rightarrow> thrown + json"
  undefined_trim_message :: string

definition string_field :: "string \<Rightarrow> schema" where
  "string_field d = Schema STRING (Some d) [] None []"

definition tree_schema :: schema where
  "tree_schema =
     Schema OBJECT None
       [(''commonName'', string_field ''The common name of the tree.''),
        (''scientificName'', string_field ''The scientific (Latin) name of the tree.''),
        (''description'',
           string_field
             ''A brief, interesting paragraph about the tree, including its characteristics and typical habitat.''),
        (''careTips'',
           Schema ARRAY
             (Some ''A short list of 3-4 essential care tips for this tree if it were in a garden.'')
             [] (Some (Schema STRING None [] None [])) [])]
       None
       [''commonName'', ''scientificName'', ''description'']"

definition identify_request :: "part \<Rightarrow> request" where
  "identify_request imagePart =
     \<lparr>model = ''gemini-2.5-flash'',
      contents = [\<lparr>parts = [imagePart, Text ''Identify the tree in this image.'']\<rparr>],
      config = \<lparr>responseMimeType = ''application/json'', responseSchema = tree_schema\<rparr>\<rparr>"

text \<open>What a call does that can be observed from outside: requests sent, console entries.\<close>

datatype effect = Request request | ConsoleError thrown

definition error_template :: string where
  "error_template = ''Failed to identify the tree. The model responded with an error: ''"

definition unknown_error_message :: string where
  "unknown_error_message =
     ''An unknown error occurred while identifying the tree. Please try again.''"

text \<open>The \<open>catch\<close> block of \<open>identifyTree\<close>, after the effects \<open>done\<close> of the \<open>try\<close> block.\<close>

definition catch_block :: "effect list \<Rightarrow> thrown \<Rightarrow> effect list \<times> json promise" where
  "catch_block done e =
     (done @ [ConsoleError e],
      (case e of
         JsError message \<Rightarrow> Rejected (JsError (error_template @ message))
       | NonError _ \<Rightarrow> Rejected (JsError unknown_error_message)
       | Nullish \<Rightarrow> Rejected (JsError unknown_error_message)))"

definition identifyTree :: "env \<Rightarrow> File \<Rightarrow> effect list \<times> json promise" where
  "identifyTree world imageFile =
     (case fileToGenerativePart imageFile of
        Pending \<Rightarrow> ([], Pending)
      | Rejected e \<Rightarrow> catch_block [] e
      | Resolved imagePart \<Rightarrow>
          (let req = identify_request imagePart in
           case generateContent world req of
             Pending \<Rightarrow> ([Request req], Pending)
           | Rejected e \<Rightarrow> catch_block [Request req] e
           | Resolved resp \<Rightarrow>
               (case response_text resp of
                  None \<Rightarrow>
                    catch_block [Request req] (JsError (undefined_trim_message world))
                | Some answer \<Rightarrow>
                    (let jsonText = trim answer in
                     case JSON_parse world jsonText of
                       Inl e \<Rightarrow> catch_block [Request req] e
                     | Inr parsed \<Rightarrow> ([Request req], Resolved parsed)))))"

section \<open>Completing an identification\<close>

text \<open>\<open>message || 'An unexpected error occurred.'\<close>, for the value of \<open>err.message\<close>.\<close>

definition message_or_default :: "string option \<Rightarrow> string" where
  "message_or_default message =
     (case message of
        None \<Rightarrow> ''An unexpected error occurred.''
      | Some m \<Rightarrow> if m = [] then ''An unexpected error occurred.'' else m)"

text \<open>
  The \<open>catch\<close> block of \<open>handleIdentify\<close>: \<open>setError(err.message || ...)\<close>. Reading
  \<open>err.message\<close> of \<open>null\<close> or \<open>undefined\<close> throws, and \<open>setError\<close> is not reached.
\<close>

definition handleIdentify_catch :: "thrown \<Rightarrow> ui \<Rightarrow> ui" where
  "handleIdentify_catch err s =
     (case err of
        JsError m \<Rightarrow> s\<lparr>error := Some (message_or_default (Some m))\<rparr>
      | NonError m \<Rightarrow> s\<lparr>error := Some (message_or_default m)\<rparr>
      | Nullish \<Rightarrow> s)"

text \<open>
  The rest of \<open>handleIdentify\<close>, run when the promise of \<open>identifyTree\<close> settles: the \<open>try\<close>
  or the \<open>catch\<close> branch, then \<open>finally\<close>. It never runs for a promise left pending.
\<close>

definition handleIdentify_settle :: "json promise \<Rightarrow> ui \<Rightarrow> ui" where
  "handleIdentify_settle outcome s =
     (case outcome of
        Pending \<Rightarrow> s
      | Resolved result \<Rightarrow> (s\<lparr>treeData := result\<rparr>)\<lparr>isLoading := False\<rparr>
      | Rejected err \<Rightarrow> (handleIdentify_catch err s)\<lparr>isLoading := False\<rparr>)"

text \<open>
  \<open>handleIdentify\<close> as a whole, when no other handler runs between its two halves: the
  final state and the effects of the client.
\<close>

definition handleIdentify :: "env \<Rightarrow> ui \<Rightarrow> ui \<times> effect list" where
  "handleIdentify world s =
     (case handleIdentify_begin s of
        (s1, None) \<Rightarrow> (s1, [])
      | (s1, Some f) \<Rightarrow>
          (case identifyTree world f of (effects, outcome) \<Rightarrow>
             (handleIdentify_settle outcome s1, effects)))"

section \<open>The page as an event system\<close>

text \<open>
  The component state together with the calls of \<open>identifyTree\<close> that have been started
  and have not settled. Nothing in the code cancels a call.
\<close>

record app =
  ui_state :: ui
  inflight :: "File list"

text \<open>
  The events of the page: the file input changes, a button is clicked, or the call at a
  position of \<open>inflight\<close> settles, the outside world behaving as given.
\<close>

datatype event =
    SelectFiles "File list"
  | ClickIdentify
  | ClickReset
  | Settle nat env

definition remove_at :: "nat \<Rightarrow> 'a list \<Rightarrow> 'a list" where
  "remove_at i xs = take i xs @ drop (Suc i) xs"

text \<open>
  A click reaches \<open>handleIdentify\<close> only while the button is not disabled, and
  \<open>handleReset\<close> only while the reset button is rendered.
\<close>

fun step :: "event \<Rightarrow> app \<Rightarrow> app" where
  "step (SelectFiles files) a = a\<lparr>ui_state := handleFileChange files (ui_state a)\<rparr>"
| "step ClickIdentify a =
     (if identifyDisabled (render (ui_state a)) then a
      else (case handleIdentify_begin (ui_state a) of
              (s1, None) \<Rightarrow> a\<lparr>ui_state := s1\<rparr>
            | (s1, Some f) \<Rightarrow> \<lparr>ui_state = s1, inflight = inflight a @ [f]\<rparr>))"
| "step ClickReset a =
     (if showReset (render (ui_state a)) then a\<lparr>ui_state := handleReset (ui_state a)\<rparr> else a)"
| "step (Settle i world) a =
     (if i < length (inflight a)
      then (case snd (identifyTree world (inflight a ! i)) of
              Pending \<Rightarrow> a
            | outcome \<Rightarrow>
                \<lparr>ui_state = handleIdentify_settle outcome (ui_state a),
                 inflight = remove_at i (inflight a)\<rparr>)
      else a)"

definition initial_app :: app where
  "initial_app = \<lparr>ui_state = initial_ui, inflight = []\<rparr>"

fun run :: "event list \<Rightarrow> app \<Rightarrow> app" where
  "run [] a = a"
| "run (e # es) a = run es (step e a)"

text \<open>At most one of loading, result and error is active.\<close>

definition at_most_one_active :: "ui \<Rightarrow> bool" where
  "at_most_one_active s =
     (\<not> (isLoading s \<and> treeData s \<noteq> JNull) \<and> \<not> (isLoading s \<and> error s \<noteq> None)
      \<and> \<not> (treeData s \<noteq> JNull \<and> error s \<noteq> None))"

text \<open>
  A run in which identification is started only while no earlier call is in flight.
\<close>

fun starts_idle :: "event \<Rightarrow> app \<Rightarrow> bool" where
  "starts_idle ClickIdentify a = (identifyDisabled (render (ui_state a)) \<or> inflight a = [])"
| "starts_idle _ a = True"

fun one_call_at_a_time :: "event list \<Rightarrow> app \<Rightarrow> bool" where
  "one_call_at_a_time [] a = True"
| "one_call_at_a_time (e # es) a = (starts_idle e a \<and> one_call_at_a_time es (step e a))"

text \<open>The calls of \<open>generateContent\<close> among the effects of a call of \<open>identifyTree\<close>.\<close>

definition requests_of :: "effect list \<Rightarrow> request list" where
  "requests_of effects = concat (map (\<lambda>e. case e of Request r \<Rightarrow> [r] | ConsoleError _ \<Rightarrow> []) effects)"

text \<open>
  The invariant of runs with one call at a time: with no call in flight nothing is
  loading and result and error are not both set; with one call in flight both are clear.
\<close>

definition settled_or_single :: "app \<Rightarrow> bool" where
  "settled_or_single a =
     (case inflight a of
        [] \<Rightarrow> \<not> isLoading (ui_state a)
               \<and> (treeData (ui_state a) = JNull \<or> error (ui_state a) = None)
      | [f] \<Rightarrow> treeData (ui_state a) = JNull \<and> error (ui_state a) = None
      | _ \<Rightarrow> False)"

section \<open>Sample inputs\<close>

text \<open>
  A PNG file (the first four bytes of the PNG signature), a file that cannot be read, and
  four behaviours of the outside world: the model answers with the JSON text of an oak
  surrounded by white space, the request is rejected with the error \<open>network down\<close>, the
  model answers with text that is not JSON, and the answer carries no text.
\<close>

definition png_file :: File where
  "png_file = \<lparr>file_type = ''image/png'', file_bytes = Some [137, 80, 78, 71]\<rparr>"

definition unreadable_file :: File where
  "unreadable_file = \<lparr>file_type = ''image/jpeg'', file_bytes = None\<rparr>"

definition oak :: json where
  \<open>oak = JObj [(''commonName'', JStr ''Oak''), (''scientificName'', JStr ''Quercus robur''),
     (''description'', JStr ''...''), (''careTips'', JArr [JStr ''Water weekly'', JStr ''Full sun''])]\<close>

definition oak_text :: string where
  \<open>oak_text = ''{"commonName":"Oak","scientificName":"Quercus robur","description":"...","careTips":["Water weekly","Full sun"]}''\<close>

definition mock_parse :: "string \<Rightarrow> thrown + json" where
  "mock_parse s = (if s = oak_text then Inr oak else Inl (JsError ''Unexpected token''))"

definition trim_of_undefined :: string where
  "trim_of_undefined = ''Cannot read properties of undefined (reading trim)''"

definition world_oak :: env where
  "world_oak =
     \<lparr>generateContent = (\<lambda>req. Resolved \<lparr>response_text = Some (CHR 0x0A # oak_text @ '' '')\<rparr>),
      JSON_parse = mock_parse, undefined_trim_message = trim_of_undefined\<rparr>"

definition world_down :: env where
  "world_down =
     \<lparr>generateContent = (\<lambda>req. Rejected (JsError ''network down'')),
      JSON_parse = mock_parse, undefined_trim_message = trim_of_undefined\<rparr>"

definition world_garbled :: env where
  "world_garbled =
     \<lparr>generateContent = (\<lambda>req. Resolved \<lparr>response_text = Some ''{oops''\<rparr>),
      JSON_parse = mock_parse, undefined_trim_message = trim_of_undefined\<rparr>"

definition world_silent :: env where
  "world_silent =
     \<lparr>generateContent = (\<lambda>req. Resolved \<lparr>response_text = None\<rparr>),
      JSON_parse = mock_parse, undefined_trim_message = trim_of_undefined\<rparr>"

definition file_chosen :: ui where
  "file_chosen = handleFileChange [png_file] initial_ui"

text \<open>
  Two runs of the page. In \<open>stale_run\<close> the user resets while the first call is in
  flight, chooses a file and identifies again; the first call then succeeds and the
  second fails. In \<open>plain_run\<close> every call settles before the next one starts.
\<close>

definition stale_run :: "event list" where
  "stale_run =
     [SelectFiles [png_file], ClickIdentify, ClickReset, SelectFiles [png_file], ClickIdentify,
      Settle 0 world_oak, Settle 0 world_down]"

definition plain_run :: "event list" where
  "plain_run =
     [SelectFiles [png_file], ClickIdentify, Settle 0 world_down, ClickIdentify,
      Settle 0 world_oak, ClickReset]"

section \<open>Base64 and the payload of a data URL\<close>

lemma b64_all: "\<forall>n<64. b64_value (b64_char n) = Some n \<and> b64_char n \<noteq> CHR ''='' \<and> CHR '','' \<noteq> b64_char n"
  by code_simp

lemma b64_value_char: "n < 64 \<Longrightarrow> b64_value (b64_char n) = Some n"
  using b64_all by blast

lemma b64_char_not_pad: "n < 64 \<Longrightarrow> b64_char n \<noteq> CHR ''=''"
  using b64_all by blast

lemma b64_char_not_comma: "n < 64 \<Longrightarrow> CHR '','' \<noteq> b64_char n"
  using b64_all by blast

lemma unat_byte: "unat (a :: byte) < 256"
  using unsigned_less [of a, where ?'a = nat] by simp

lemma sextet_join:
  fixes a b c :: nat
  assumes "b < 256" "c < 256"
  shows "(a div 4) * 4 + ((a mod 4) * 16 + b div 16) div 16 = a"
    "(((a mod 4) * 16 + b div 16) mod 16) * 16 + ((b mod 16) * 4 + c div 64) div 4 = b"
    "(((b mod 16) * 4 + c div 64) mod 4) * 64 + c mod 64 = c"
    "(a div 4) * 4 + ((a mod 4) * 16) div 16 = a"
    "(((a mod 4) * 16 + b div 16) mod 16) * 16 + ((b mod 16) * 4) div 4 = b"
  using assms by simp_all

lemma sextets_lt:
  fixes a b c :: byte
  shows "unat a div 4 < 64" "unat a mod 4 * 16 + unat b div 16 < 64" "unat a mod 4 * 16 < 64"
    "unat b mod 16 * 4 + unat c div 64 < 64" "unat b mod 16 * 4 < 64" "unat c mod 64 < 64"
  using unat_byte [of a] unat_byte [of b] unat_byte [of c] by simp_all

lemmas b64_value_sextet = sextets_lt [THEN b64_value_char]
lemmas b64_pad_sextet = sextets_lt [THEN b64_char_not_pad]
lemmas b64_comma_sextet = sextets_lt [THEN b64_char_not_comma]

lemma byte_of_unat: "(of_nat (unat a) :: byte) = a"
  by simp

lemma bytes_of_sextets:
  fixes a b c :: byte
  shows "first_byte (unat a div 4) (unat a mod 4 * 16 + unat b div 16) = a"
    "second_byte (unat a mod 4 * 16 + unat b div 16) (unat b mod 16 * 4 + unat c div 64) = b"
    "third_byte (unat b mod 16 * 4 + unat c div 64) (unat c mod 64) = c"
    "first_byte (unat a div 4) (unat a mod 4 * 16) = a"
    "second_byte (unat a mod 4 * 16 + unat b div 16) (unat b mod 16 * 4) = b"
  unfolding first_byte_def second_byte_def third_byte_def
  by (simp_all only: sextet_join [OF unat_byte unat_byte] byte_of_unat)

lemma base64_roundtrip: "base64_decode (base64 bs) = Some bs"
proof (induction bs rule: base64.induct)
  case 1
  show ?case by simp
next
  case (2 a)
  show ?case
    by (simp add: b64_value_sextet bytes_of_sextets)
next
  case (3 a b)
  show ?case
    by (simp add: b64_value_sextet b64_pad_sextet bytes_of_sextets)
next
  case (4 a b c rest)
  then show ?case
    by (simp add: b64_value_sextet b64_pad_sextet bytes_of_sextets)
qed

lemma base64_no_comma: "CHR '','' \<notin> set (base64 bs)"
  by (induction bs rule: base64.induct) (simp_all add: b64_comma_sextet)

lemma split_on_none: "c \<notin> set s \<Longrightarrow> split_on c s = [s]"
  by (induction s) auto

lemma split_on_first: "c \<notin> set pre \<Longrightarrow> split_on c (pre @ c # post) = pre # split_on c post"
  by (induction pre) auto

lemma payload_segment:
  "c \<notin> set pre \<Longrightarrow> c \<notin> set post \<Longrightarrow> at_index (split_on c (pre @ c # post)) 1 = Some post"
  by (simp add: split_on_first split_on_none at_index_def)

lemma dataURL_payload:
  assumes "CHR '','' \<notin> set t" and "CHR '','' \<notin> set p"
  shows "at_index (split_on CHR '','' (''data:'' @ t @ '';base64,'' @ p)) 1 = Some p"
proof -
  have "''data:'' @ t @ '';base64,'' @ p = (''data:'' @ t @ '';base64'') @ CHR '','' # p"
    by simp
  moreover have "CHR '','' \<notin> set (''data:'' @ t @ '';base64'')"
    using assms(1) by simp
  ultimately show ?thesis
    using payload_segment [of "CHR '',''" "''data:'' @ t @ '';base64''" p] assms(2) by simp
qed

lemma encoder_resolves:
  assumes "CHR '','' \<notin> set (file_type f)" and "file_bytes f = Some bytes"
  shows "fileToGenerativePart f = Resolved (InlineData (Some (base64 bytes)) (file_type f))"
proof -
  have "onloadend (readAsDataURL f) = Resolves (Some (base64 bytes))"
    unfolding readAsDataURL_def onloadend_def
    by (simp only: assms(2) option.case dataURL_payload [OF assms(1) base64_no_comma])
  then show ?thesis
    by (simp add: fileToGenerativePart_def base64EncodedDataPromise_def)
qed

section \<open>Evaluating the sample inputs\<close>

lemma png_payload: "base64 [137, 80, 78, 71] = ''iVBORw==''"
  by (simp add: b64_char_def b64_alphabet_def)

lemma png_part: "fileToGenerativePart png_file = Resolved (InlineData (Some ''iVBORw=='') ''image/png'')"
  using encoder_resolves [of png_file "[137, 80, 78, 71]"] png_payload
  by (simp add: png_file_def)

lemma file_chosen_eq:
  "file_chosen = \<lparr>selectedFile = Some png_file, treeData = JNull, isLoading = False, error = None,
      previewUrl = Some 0, liveUrls = {0}, urlCount = Suc 0\<rparr>"
  by (simp add: file_chosen_def handleFileChange_def setSelectedFile_def useMemo_previewUrl_def
      initial_ui_def)

lemma message_of_rethrown:
  "message_or_default (Some (error_template @ m)) = error_template @ m"
  "message_or_default (Some unknown_error_message) = unknown_error_message"
  by (simp_all add: message_or_default_def error_template_def unknown_error_message_def)

lemma identify_oak: "identifyTree world_oak png_file =
    ([Request (identify_request (InlineData (Some ''iVBORw=='') ''image/png''))], Resolved oak)"
  by (simp add: identifyTree_def png_part world_oak_def mock_parse_def trim_def is_space_def
      oak_text_def)

lemma identify_down: "identifyTree world_down png_file =
    ([Request (identify_request (InlineData (Some ''iVBORw=='') ''image/png'')),
      ConsoleError (JsError ''network down'')],
     Rejected (JsError (error_template @ ''network down'')))"
  by (simp add: identifyTree_def png_part world_down_def catch_block_def)

lemma identify_garbled: "identifyTree world_garbled png_file =
    ([Request (identify_request (InlineData (Some ''iVBORw=='') ''image/png'')),
      ConsoleError (JsError ''Unexpected token'')],
     Rejected (JsError (error_template @ ''Unexpected token'')))"
  by (simp add: identifyTree_def png_part world_garbled_def catch_block_def mock_parse_def
      trim_def is_space_def oak_text_def)

lemma identify_silent: "identifyTree world_silent png_file =
    ([Request (identify_request (InlineData (Some ''iVBORw=='') ''image/png'')),
      ConsoleError (JsError trim_of_undefined)],
     Rejected (JsError (error_template @ trim_of_undefined)))"
  by (simp add: identifyTree_def png_part world_silent_def catch_block_def)

lemma oak_typed: "as_TreeData oak =
    Some \<lparr>commonName = ''Oak'', scientificName = ''Quercus robur'', description = ''...'',
          careTips = Some [''Water weekly'', ''Full sun'']\<rparr>"
  by (simp add: as_TreeData_def oak_def required_string_def)

section \<open>The encoder\<close>

text \<open>
  C1. For every PNG or JPEG file whose bytes the read delivers, \<open>fileToGenerativePart\<close>
  resolves with a part whose \<open>data\<close> is the base64 text of all the bytes of the file,
  which is what follows the first comma of the data URL, and decoding it gives the bytes
  back; its \<open>mimeType\<close> is the declared type of the file.
\<close>

theorem C1_encoder_roundtrip:
  assumes "file_type f = ''image/png'' \<or> file_type f = ''image/jpeg''"
    and "file_bytes f = Some bytes"
  shows "\<exists>d pre. fileToGenerativePart f = Resolved (InlineData (Some d) (file_type f))
           \<and> d = base64 bytes
           \<and> readAsDataURL f = Some (pre @ '','' @ d) \<and> CHR '','' \<notin> set pre
           \<and> base64_decode d = Some bytes"
proof -
  have t: "CHR '','' \<notin> set (file_type f)"
    using assms(1) by auto
  have "readAsDataURL f = Some ((''data:'' @ file_type f @ '';base64'') @ '','' @ base64 bytes)"
    by (simp add: readAsDataURL_def assms(2))
  moreover have "CHR '','' \<notin> set (''data:'' @ file_type f @ '';base64'')"
    using t by simp
  ultimately show ?thesis
    using encoder_resolves [OF t assms(2)] base64_roundtrip [of bytes] by blast
qed

theorem C1_encoder_roundtrip_witness:
  "(file_type png_file = ''image/png'' \<or> file_type png_file = ''image/jpeg'')
   \<and> file_bytes png_file = Some [137, 80, 78, 71]
   \<and> fileToGenerativePart png_file = Resolved (InlineData (Some ''iVBORw=='') ''image/png'')
   \<and> readAsDataURL png_file = Some ''data:image/png;base64,iVBORw==''
   \<and> base64_decode ''iVBORw=='' = Some [137, 80, 78, 71]"
proof -
  have typed: "file_type png_file = ''image/png'' \<or> file_type png_file = ''image/jpeg''"
    and read: "file_bytes png_file = Some [137, 80, 78, 71]"
    by (simp_all add: png_file_def)
  show ?thesis
    using C1_encoder_roundtrip [OF typed read] typed read png_part
    by (simp add: png_file_def readAsDataURL_def b64_value_def b64_char_def b64_alphabet_def
        first_byte_def second_byte_def third_byte_def)
qed

text \<open>
  C4. The specification has a failed read reject the promise of \<open>fileToGenerativePart\<close>,
  and with it \<open>identifyTree\<close>. The code does otherwise: \<open>onloadend\<close> also runs after
  a failed read, \<open>reader.result\<close> is then \<open>null\<close>, the call of \<open>split\<close> throws inside the
  event handler, and the promise, built without \<open>reject\<close>, is never settled. No request
  is sent, \<open>identifyTree\<close> never settles and the page keeps loading.
\<close>

theorem C4_read_failure_leaves_promise_pending:
  "fileToGenerativePart unreadable_file = Pending
   \<and> identifyTree world unreadable_file = ([], Pending)
   \<and> isLoading (fst (handleIdentify world (handleFileChange [unreadable_file] initial_ui)))"
  by (simp add: unreadable_file_def fileToGenerativePart_def base64EncodedDataPromise_def
      onloadend_def readAsDataURL_def identifyTree_def handleIdentify_def
      handleIdentify_begin_def handleIdentify_settle_def handleFileChange_def
      setSelectedFile_def useMemo_previewUrl_def initial_ui_def)

section \<open>The identification client\<close>

text \<open>The message of the \<open>Error\<close> the \<open>catch\<close> block of \<open>identifyTree\<close> throws for \<open>e\<close>.\<close>

lemma catch_block_eq:
  "catch_block done e =
     (done @ [ConsoleError e],
      Rejected (JsError (case e of JsError m \<Rightarrow> error_template @ m
                         | NonError v \<Rightarrow> unknown_error_message
                         | Nullish \<Rightarrow> unknown_error_message)))"
  by (cases e) (simp_all add: catch_block_def)

lemma identify_rejected_call:
  assumes "fileToGenerativePart f = Resolved imagePart"
    and "generateContent world (identify_request imagePart) = Rejected e"
  shows "identifyTree world f = catch_block [Request (identify_request imagePart)] e"
  using assms by (simp add: identifyTree_def)

lemma identify_no_text:
  assumes "fileToGenerativePart f = Resolved imagePart"
    and "generateContent world (identify_request imagePart) = Resolved resp"
    and "response_text resp = None"
  shows "identifyTree world f =
    catch_block [Request (identify_request imagePart)] (JsError (undefined_trim_message world))"
  using assms by (simp add: identifyTree_def)

lemma identify_parse_failure:
  assumes "fileToGenerativePart f = Resolved imagePart"
    and "generateContent world (identify_request imagePart) = Resolved resp"
    and "response_text resp = Some t"
    and "JSON_parse world (trim t) = Inl e"
  shows "identifyTree world f = catch_block [Request (identify_request imagePart)] e"
  using assms by (simp add: identifyTree_def)

lemma identify_parsed:
  assumes "fileToGenerativePart f = Resolved imagePart"
    and "generateContent world (identify_request imagePart) = Resolved resp"
    and "response_text resp = Some t"
    and "JSON_parse world (trim t) = Inr j"
  shows "identifyTree world f = ([Request (identify_request imagePart)], Resolved j)"
  using assms by (simp add: identifyTree_def)

lemma identify_rejection_is_caught:
  assumes "fileToGenerativePart f = Resolved imagePart"
    and "identifyTree world f = (effects, Rejected err)"
  shows "\<exists>e. identifyTree world f = catch_block [Request (identify_request imagePart)] e"
  using assms
  by (auto simp: identifyTree_def Let_def split: promise.splits option.splits sum.splits)
    metis+

lemma handleIdentify_rejected:
  assumes "selectedFile s = Some f" and "identifyTree world f = (effects, Rejected (JsError m))"
  shows "fst (handleIdentify world s) =
    s\<lparr>isLoading := False, error := Some (message_or_default (Some m)), treeData := JNull\<rparr>"
  using assms
  by (simp add: handleIdentify_def handleIdentify_begin_def handleIdentify_settle_def
      handleIdentify_catch_def)

lemma handleIdentify_resolved:
  assumes "selectedFile s = Some f" and "identifyTree world f = (effects, Resolved j)"
  shows "fst (handleIdentify world s) = s\<lparr>isLoading := False, error := None, treeData := j\<rparr>"
  using assms
  by (simp add: handleIdentify_def handleIdentify_begin_def handleIdentify_settle_def)

lemma rethrown_message_nonempty:
  "(case e of JsError m \<Rightarrow> error_template @ m
    | NonError v \<Rightarrow> unknown_error_message
    | Nullish \<Rightarrow> unknown_error_message) \<noteq> []"
  by (cases e) (simp_all add: error_template_def unknown_error_message_def)

lemma message_or_default_nonempty: "m \<noteq> [] \<Longrightarrow> message_or_default (Some m) = m"
  by (simp add: message_or_default_def)

text \<open>The page after \<open>handleIdentify\<close>, when the \<open>catch\<close> block of \<open>identifyTree\<close> has run.\<close>

lemma page_after_caught:
  assumes sel: "selectedFile s = Some f"
    and call: "identifyTree world f = catch_block done e"
  shows "fst (handleIdentify world s) =
    s\<lparr>isLoading := False,
      error := Some (case e of JsError m \<Rightarrow> error_template @ m
                     | NonError v \<Rightarrow> unknown_error_message
                     | Nullish \<Rightarrow> unknown_error_message),
      treeData := JNull\<rparr>"
  using handleIdentify_rejected [OF sel call [unfolded catch_block_eq]]
    message_or_default_nonempty [OF rethrown_message_nonempty [of e]]
  by simp

lemma as_TreeData_truthy: "as_TreeData j = Some d \<Longrightarrow> truthy j"
  by (cases j) (simp_all add: as_TreeData_def)

lemma as_string_Some: "as_string j = Some s \<Longrightarrow> j = JStr s"
  by (cases j) simp_all

lemma as_strings_Some: "as_strings js = Some ss \<Longrightarrow> js = map JStr ss"
  by (induction js arbitrary: ss) (auto split: option.splits dest: as_string_Some)

lemma required_string_Some: "required_string kvs k = Some s \<Longrightarrow> map_of kvs k = Some (JStr s)"
  by (auto simp: required_string_def split: option.splits dest: as_string_Some)

lemma as_TreeData_fields:
  assumes "as_TreeData j = Some d"
  shows "\<exists>kvs. j = JObj kvs
    \<and> map_of kvs ''commonName'' = Some (JStr (commonName d))
    \<and> map_of kvs ''scientificName'' = Some (JStr (scientificName d))
    \<and> map_of kvs ''description'' = Some (JStr (description d))
    \<and> map_of kvs ''careTips'' = map_option (\<lambda>tips. JArr (map JStr tips)) (careTips d)"
proof (cases j)
  case (JObj kvs)
  obtain c s t where req: "required_string kvs ''commonName'' = Some c"
    "required_string kvs ''scientificName'' = Some s"
    "required_string kvs ''description'' = Some t"
    using assms JObj by (auto simp: as_TreeData_def split: option.splits)
  show ?thesis
  proof (cases "map_of kvs ''careTips''")
    case None
    then show ?thesis
      using assms JObj req by (auto simp: as_TreeData_def dest: required_string_Some)
  next
    case (Some v)
    then obtain xs tips where "v = JArr xs" "as_strings xs = Some tips"
      using assms JObj req by (auto simp: as_TreeData_def split: json.splits option.splits)
    then show ?thesis
      using assms JObj req Some
      by (auto simp: as_TreeData_def dest: required_string_Some as_strings_Some)
  qed
qed (use assms in \<open>simp_all add: as_TreeData_def\<close>)

text \<open>
  C3. Every exception of the network call or of reading and parsing its answer, that is
  a rejection of the call with \<open>e\<close>, the \<open>TypeError\<close> \<open>e\<close> of \<open>response.text.trim()\<close> when
  the answer has no text, or a throw of \<open>JSON.parse\<close> with \<open>e\<close>, is caught once (one
  console entry), and \<open>identifyTree\<close> rejects with a new \<open>Error\<close>: the template followed by
  the message of \<open>e\<close> when \<open>e\<close> is an \<open>Error\<close>, the fixed fallback message otherwise. The
  page then shows that message and is neither loading nor showing a result. Every
  rejection of \<open>identifyTree\<close> arises so. In particular, after a rejection of the call
  with the \<open>Error\<close> \<open>network down\<close> the page shows an error message that contains
  \<open>network down\<close>.
\<close>

theorem C3_errors_caught_once_and_rethrown:
  assumes enc: "fileToGenerativePart f = Resolved imagePart"
    and sel: "selectedFile s = Some f"
  shows "(\<forall>e. (generateContent world (identify_request imagePart) = Rejected e
            \<or> (\<exists>resp. generateContent world (identify_request imagePart) = Resolved resp
                  \<and> response_text resp = None \<and> e = JsError (undefined_trim_message world))
            \<or> (\<exists>resp t. generateContent world (identify_request imagePart) = Resolved resp
                  \<and> response_text resp = Some t \<and> JSON_parse world (trim t) = Inl e))
          \<longrightarrow>
            identifyTree world f =
              ([Request (identify_request imagePart), ConsoleError e],
               Rejected (JsError (case e of JsError m \<Rightarrow> error_template @ m
                                  | NonError v \<Rightarrow> unknown_error_message
                                  | Nullish \<Rightarrow> unknown_error_message)))
            \<and> error (fst (handleIdentify world s)) =
                Some (case e of JsError m \<Rightarrow> error_template @ m
                      | NonError v \<Rightarrow> unknown_error_message
                      | Nullish \<Rightarrow> unknown_error_message)
            \<and> errorBanner (render (fst (handleIdentify world s))) =
                Some (case e of JsError m \<Rightarrow> error_template @ m
                      | NonError v \<Rightarrow> unknown_error_message
                      | Nullish \<Rightarrow> unknown_error_message)
            \<and> \<not> isLoading (fst (handleIdentify world s))
            \<and> treeData (fst (handleIdentify world s)) = JNull)
    \<and> (\<forall>effects err. identifyTree world f = (effects, Rejected err) \<longrightarrow>
          (\<exists>e. effects = [Request (identify_request imagePart), ConsoleError e]
              \<and> err = JsError (case e of JsError m \<Rightarrow> error_template @ m
                                | NonError v \<Rightarrow> unknown_error_message
                                | Nullish \<Rightarrow> unknown_error_message)))
    \<and> (generateContent world (identify_request imagePart) = Rejected (JsError ''network down'')
          \<longrightarrow>
            errorBanner (render (fst (handleIdentify world s)))
              = Some (error_template @ ''network down'')
            \<and> sublist ''network down'' (error_template @ ''network down''))"
proof -
  let ?req = "identify_request imagePart"
  have caught: "identifyTree world f =
        ([Request ?req, ConsoleError e],
         Rejected (JsError (case e of JsError m \<Rightarrow> error_template @ m
                            | NonError v \<Rightarrow> unknown_error_message
                            | Nullish \<Rightarrow> unknown_error_message)))
      \<and> error (fst (handleIdentify world s)) =
          Some (case e of JsError m \<Rightarrow> error_template @ m
                | NonError v \<Rightarrow> unknown_error_message
                | Nullish \<Rightarrow> unknown_error_message)
      \<and> errorBanner (render (fst (handleIdentify world s))) =
          Some (case e of JsError m \<Rightarrow> error_template @ m
                | NonError v \<Rightarrow> unknown_error_message
                | Nullish \<Rightarrow> unknown_error_message)
      \<and> \<not> isLoading (fst (handleIdentify world s))
      \<and> treeData (fst (handleIdentify world s)) = JNull"
    if call: "identifyTree world f = catch_block [Request ?req] e" for e
  proof -
    have after: "fst (handleIdentify world s) =
        s\<lparr>isLoading := False,
          error := Some (case e of JsError m \<Rightarrow> error_template @ m
                         | NonError v \<Rightarrow> unknown_error_message
                         | Nullish \<Rightarrow> unknown_error_message),
          treeData := JNull\<rparr>"
      using page_after_caught [OF sel call] .
    show ?thesis
      using call rethrown_message_nonempty [of e]
      by (simp add: catch_block_eq after render_def truthy_string_def)
  qed
  have first: "\<forall>e. (generateContent world ?req = Rejected e
            \<or> (\<exists>resp. generateContent world ?req = Resolved resp
                  \<and> response_text resp = None \<and> e = JsError (undefined_trim_message world))
            \<or> (\<exists>resp t. generateContent world ?req = Resolved resp
                  \<and> response_text resp = Some t \<and> JSON_parse world (trim t) = Inl e))
          \<longrightarrow>
            identifyTree world f =
              ([Request ?req, ConsoleError e],
               Rejected (JsError (case e of JsError m \<Rightarrow> error_template @ m
                                  | NonError v \<Rightarrow> unknown_error_message
                                  | Nullish \<Rightarrow> unknown_error_message)))
            \<and> error (fst (handleIdentify world s)) =
                Some (case e of JsError m \<Rightarrow> error_template @ m
                      | NonError v \<Rightarrow> unknown_error_message
                      | Nullish \<Rightarrow> unknown_error_message)
            \<and> errorBanner (render (fst (handleIdentify world s))) =
                Some (case e of JsError m \<Rightarrow> error_template @ m
                      | NonError v \<Rightarrow> unknown_error_message
                      | Nullish \<Rightarrow> unknown_error_message)
            \<and> \<not> isLoading (fst (handleIdentify world s))
            \<and> treeData (fst (handleIdentify world s)) = JNull"
  proof (intro allI impI)
    fix e
    assume "generateContent world ?req = Rejected e
        \<or> (\<exists>resp. generateContent world ?req = Resolved resp
              \<and> response_text resp = None \<and> e = JsError (undefined_trim_message world))
        \<or> (\<exists>resp t. generateContent world ?req = Resolved resp
              \<and> response_text resp = Some t \<and> JSON_parse world (trim t) = Inl e)"
    then have "identifyTree world f = catch_block [Request ?req] e"
      using identify_rejected_call [OF enc] identify_no_text [OF enc]
        identify_parse_failure [OF enc]
      by blast
    then show "identifyTree world f =
          ([Request ?req, ConsoleError e],
           Rejected (JsError (case e of JsError m \<Rightarrow> error_template @ m
                              | NonError v \<Rightarrow> unknown_error_message
                              | Nullish \<Rightarrow> unknown_error_message)))
        \<and> error (fst (handleIdentify world s)) =
            Some (case e of JsError m \<Rightarrow> error_template @ m
                  | NonError v \<Rightarrow> unknown_error_message
                  | Nullish \<Rightarrow> unknown_error_message)
        \<and> errorBanner (render (fst (handleIdentify world s))) =
            Some (case e of JsError m \<Rightarrow> error_template @ m
                  | NonError v \<Rightarrow> unknown_error_message
                  | Nullish \<Rightarrow> unknown_error_message)
        \<and> \<not> isLoading (fst (handleIdentify world s))
        \<and> treeData (fst (handleIdentify world s)) = JNull"
      by (rule caught)
  qed
  have second: "\<forall>effects err. identifyTree world f = (effects, Rejected err) \<longrightarrow>
      (\<exists>e. effects = [Request ?req, ConsoleError e]
          \<and> err = JsError (case e of JsError m \<Rightarrow> error_template @ m
                            | NonError v \<Rightarrow> unknown_error_message
                            | Nullish \<Rightarrow> unknown_error_message))"
  proof (intro allI impI)
    fix effects err
    assume rejected: "identifyTree world f = (effects, Rejected err)"
    then obtain e where "identifyTree world f = catch_block [Request ?req] e"
      using identify_rejection_is_caught [OF enc] by blast
    then show "\<exists>e. effects = [Request ?req, ConsoleError e]
        \<and> err = JsError (case e of JsError m \<Rightarrow> error_template @ m
                          | NonError v \<Rightarrow> unknown_error_message
                          | Nullish \<Rightarrow> unknown_error_message)"
      using rejected by (auto simp: catch_block_eq)
  qed
  have third: "generateContent world ?req = Rejected (JsError ''network down'') \<longrightarrow>
      errorBanner (render (fst (handleIdentify world s))) = Some (error_template @ ''network down'')
      \<and> sublist ''network down'' (error_template @ ''network down'')"
  proof
    assume "generateContent world ?req = Rejected (JsError ''network down'')"
    then have "identifyTree world f = catch_block [Request ?req] (JsError ''network down'')"
      by (rule identify_rejected_call [OF enc])
    from caught [OF this]
    show "errorBanner (render (fst (handleIdentify world s)))
          = Some (error_template @ ''network down'')
        \<and> sublist ''network down'' (error_template @ ''network down'')"
      by simp
  qed
  from first second third show ?thesis by (intro conjI)
qed

theorem C3_errors_caught_once_and_rethrown_witness:
  "identifyTree world_down png_file =
      ([Request (identify_request (InlineData (Some ''iVBORw=='') ''image/png'')),
        ConsoleError (JsError ''network down'')],
       Rejected (JsError (error_template @ ''network down'')))
   \<and> errorBanner (render (fst (handleIdentify world_down file_chosen)))
       = Some ''Failed to identify the tree. The model responded with an error: network down''
   \<and> errorBanner (render (fst (handleIdentify world_silent file_chosen)))
       = Some (error_template @ trim_of_undefined)
   \<and> errorBanner (render (fst (handleIdentify world_garbled file_chosen)))
       = Some (error_template @ ''Unexpected token'')"
proof -
  let ?req = "identify_request (InlineData (Some ''iVBORw=='') ''image/png'')"
  have sel: "selectedFile file_chosen = Some png_file"
    by (simp add: file_chosen_eq)
  have down: "generateContent world_down ?req = Rejected (JsError ''network down'')"
    by (simp add: world_down_def)
  have silent: "\<exists>resp. generateContent world_silent ?req = Resolved resp
      \<and> response_text resp = None
      \<and> JsError trim_of_undefined = JsError (undefined_trim_message world_silent)"
    by (simp add: world_silent_def)
  have garbled: "\<exists>resp t. generateContent world_garbled ?req = Resolved resp
      \<and> response_text resp = Some t
      \<and> JSON_parse world_garbled (trim t) = Inl (JsError ''Unexpected token'')"
    by (simp add: world_garbled_def mock_parse_def trim_def is_space_def oak_text_def)
  have "identifyTree world_down png_file =
      ([Request ?req, ConsoleError (JsError ''network down'')],
       Rejected (JsError (error_template @ ''network down'')))
    \<and> errorBanner (render (fst (handleIdentify world_down file_chosen)))
        = Some (error_template @ ''network down'')"
    using C3_errors_caught_once_and_rethrown [OF png_part sel, of world_down] down
    by simp
  moreover have "errorBanner (render (fst (handleIdentify world_silent file_chosen)))
      = Some (error_template @ trim_of_undefined)"
    using C3_errors_caught_once_and_rethrown [OF png_part sel, of world_silent] silent
    by fastforce
  moreover have "errorBanner (render (fst (handleIdentify world_garbled file_chosen)))
      = Some (error_template @ ''Unexpected token'')"
    using C3_errors_caught_once_and_rethrown [OF png_part sel, of world_garbled] garbled
    by fastforce
  ultimately show ?thesis
    by (simp add: error_template_def)
qed

text \<open>
  C8. \<open>identifyTree\<close> hands the trimmed text of the answer to \<open>JSON.parse\<close>. When that
  throws, the call is rejected with a new \<open>Error\<close> and the page shows its message, which
  is not empty. When it returns a value that is a \<open>TreeData\<close>, the call resolves with it
  and the page shows the result card with the parsed names and description, and the care
  tips in their order.
\<close>

theorem C8_parse_failure_and_success:
  assumes enc: "fileToGenerativePart f = Resolved imagePart"
    and resp: "generateContent world (identify_request imagePart) = Resolved resp"
    and answer: "response_text resp = Some t"
    and sel: "selectedFile s = Some f"
  shows "(\<forall>e. JSON_parse world (trim t) = Inl e \<longrightarrow>
            (\<exists>m. snd (identifyTree world f) = Rejected (JsError m)
                 \<and> m \<noteq> []
                 \<and> error (fst (handleIdentify world s)) = Some m
                 \<and> errorBanner (render (fst (handleIdentify world s))) = Some m)
            \<and> treeData (fst (handleIdentify world s)) = JNull
            \<and> \<not> isLoading (fst (handleIdentify world s)))
    \<and> (\<forall>j d. JSON_parse world (trim t) = Inr j \<longrightarrow> as_TreeData j = Some d \<longrightarrow>
            snd (identifyTree world f) = Resolved j
            \<and> treeData (fst (handleIdentify world s)) = j
            \<and> error (fst (handleIdentify world s)) = None
            \<and> \<not> isLoading (fst (handleIdentify world s))
            \<and> (\<exists>v. resultCard (render (fst (handleIdentify world s))) = Card v
                  \<and> name_heading v = commonName d
                  \<and> latin_line v = scientificName d
                  \<and> body_text v = description d
                  \<and> (\<forall>tips. careTips d = Some tips \<longrightarrow> tips \<noteq> [] \<longrightarrow> tip_items v = Some tips)
                  \<and> (\<exists>kvs. j = JObj kvs
                        \<and> map_of kvs ''commonName'' = Some (JStr (name_heading v))
                        \<and> map_of kvs ''scientificName'' = Some (JStr (latin_line v))
                        \<and> map_of kvs ''description'' = Some (JStr (body_text v))
                        \<and> (\<forall>tips. tip_items v = Some tips \<longrightarrow>
                              map_of kvs ''careTips'' = Some (JArr (map JStr tips))))))"
proof (intro conjI allI impI)
  fix e
  assume bad: "JSON_parse world (trim t) = Inl e"
  let ?m = "case e of JsError m \<Rightarrow> error_template @ m
            | NonError v \<Rightarrow> unknown_error_message
            | Nullish \<Rightarrow> unknown_error_message"
  have caught: "identifyTree world f = catch_block [Request (identify_request imagePart)] e"
    using identify_parse_failure [OF enc resp answer bad] .
  then have call: "identifyTree world f =
      ([Request (identify_request imagePart), ConsoleError e], Rejected (JsError ?m))"
    by (simp add: catch_block_eq)
  have after: "fst (handleIdentify world s) =
      s\<lparr>isLoading := False, error := Some ?m, treeData := JNull\<rparr>"
    using page_after_caught [OF sel caught] .
  have nonempty: "?m \<noteq> []"
    by (rule rethrown_message_nonempty)
  show "\<exists>m. snd (identifyTree world f) = Rejected (JsError m) \<and> m \<noteq> []
      \<and> error (fst (handleIdentify world s)) = Some m
      \<and> errorBanner (render (fst (handleIdentify world s))) = Some m"
  proof (intro exI conjI)
    show "snd (identifyTree world f) = Rejected (JsError ?m)"
      using call by simp
    show "?m \<noteq> []" by (rule nonempty)
    show "error (fst (handleIdentify world s)) = Some ?m"
      by (simp add: after)
    show "errorBanner (render (fst (handleIdentify world s))) = Some ?m"
      using nonempty by (simp add: after render_def truthy_string_def)
  qed
  show "treeData (fst (handleIdentify world s)) = JNull"
    by (simp add: after)
  show "\<not> isLoading (fst (handleIdentify world s))"
    by (simp add: after)
next
  fix j d
  assume good: "JSON_parse world (trim t) = Inr j"
    and typed: "as_TreeData j = Some d"
  have call: "identifyTree world f = ([Request (identify_request imagePart)], Resolved j)"
    using identify_parsed [OF enc resp answer good] .
  have after: "fst (handleIdentify world s) =
      s\<lparr>isLoading := False, error := None, treeData := j\<rparr>"
    using handleIdentify_resolved [OF sel call] .
  show "snd (identifyTree world f) = Resolved j"
    by (simp add: call)
  show "treeData (fst (handleIdentify world s)) = j"
    by (simp add: after)
  show "error (fst (handleIdentify world s)) = None"
    by (simp add: after)
  show "\<not> isLoading (fst (handleIdentify world s))"
    by (simp add: after)
  have card: "resultCard (render (fst (handleIdentify world s))) = Card (ResultDisplay d)"
    using as_TreeData_truthy [OF typed] typed by (simp add: after render_def)
  show "\<exists>v. resultCard (render (fst (handleIdentify world s))) = Card v
      \<and> name_heading v = commonName d \<and> latin_line v = scientificName d
      \<and> body_text v = description d
      \<and> (\<forall>tips. careTips d = Some tips \<longrightarrow> tips \<noteq> [] \<longrightarrow> tip_items v = Some tips)
      \<and> (\<exists>kvs. j = JObj kvs
            \<and> map_of kvs ''commonName'' = Some (JStr (name_heading v))
            \<and> map_of kvs ''scientificName'' = Some (JStr (latin_line v))
            \<and> map_of kvs ''description'' = Some (JStr (body_text v))
            \<and> (\<forall>tips. tip_items v = Some tips \<longrightarrow>
                  map_of kvs ''careTips'' = Some (JArr (map JStr tips))))"
    using card as_TreeData_fields [OF typed]
    by (auto simp: ResultDisplay_def split: option.splits if_splits)
qed

theorem C8_parse_failure_and_success_witness:
  "(snd (identifyTree world_garbled png_file)
      = Rejected (JsError (error_template @ ''Unexpected token''))
    \<and> errorBanner (render (fst (handleIdentify world_garbled file_chosen)))
        = Some (error_template @ ''Unexpected token''))
   \<and> (snd (identifyTree world_oak png_file) = Resolved oak
      \<and> resultCard (render (fst (handleIdentify world_oak file_chosen)))
          = Card \<lparr>name_heading = ''Oak'', latin_line = ''Quercus robur'', body_text = ''...'',
                  tip_items = Some [''Water weekly'', ''Full sun'']\<rparr>)"
proof -
  have garbled: "generateContent world_garbled
      (identify_request (InlineData (Some ''iVBORw=='') ''image/png''))
      = Resolved \<lparr>response_text = Some ''{oops''\<rparr>"
    by (simp add: world_garbled_def)
  have garbled_text: "response_text \<lparr>response_text = Some ''{oops''\<rparr> = Some ''{oops''"
    by simp
  have bad: "JSON_parse world_garbled (trim ''{oops'') = Inl (JsError ''Unexpected token'')"
    by (simp add: world_garbled_def mock_parse_def trim_def is_space_def oak_text_def)
  have sel: "selectedFile file_chosen = Some png_file"
    by (simp add: file_chosen_eq)
  have answered: "generateContent world_oak
      (identify_request (InlineData (Some ''iVBORw=='') ''image/png''))
      = Resolved \<lparr>response_text = Some (CHR 0x0A # oak_text @ '' '')\<rparr>"
    by (simp add: world_oak_def)
  have answered_text: "response_text \<lparr>response_text = Some (CHR 0x0A # oak_text @ '' '')\<rparr>
      = Some (CHR 0x0A # oak_text @ '' '')"
    by simp
  have good: "JSON_parse world_oak (trim (CHR 0x0A # oak_text @ '' '')) = Inr oak"
    by (simp add: world_oak_def mock_parse_def trim_def is_space_def oak_text_def)
  show ?thesis
    using C8_parse_failure_and_success [OF png_part garbled garbled_text sel] bad
      C8_parse_failure_and_success [OF png_part answered answered_text sel] good oak_typed
    by (simp add: identify_garbled identify_oak handleIdentify_def handleIdentify_begin_def
        handleIdentify_settle_def handleIdentify_catch_def file_chosen_eq render_def
        message_of_rethrown
        truthy_string_def error_template_def oak_def as_TreeData_def required_string_def
        ResultDisplay_def)
qed

lemma requests_of_identifyTree:
  assumes "fileToGenerativePart f = Resolved imagePart"
  shows "requests_of (fst (identifyTree world f)) = [identify_request imagePart]"
  using assms
  by (simp add: identifyTree_def requests_of_def catch_block_def Let_def
      split: promise.split sum.split option.split)

lemma imagePart_shape:
  assumes "fileToGenerativePart f = Resolved imagePart"
  shows "\<exists>d. imagePart = InlineData d (file_type f)"
  using assms by (auto simp: fileToGenerativePart_def split: promise.splits)

text \<open>
  C9 does not hold of every invocation: an invocation with a file that cannot be read
  sends no request.
\<close>

theorem C9_counterexample:
  "requests_of (fst (identifyTree world_oak unreadable_file)) = []
   \<and> length (requests_of (fst (identifyTree world_oak unreadable_file))) \<noteq> 1"
  by (simp add: unreadable_file_def fileToGenerativePart_def base64EncodedDataPromise_def
      onloadend_def readAsDataURL_def identifyTree_def requests_of_def)

text \<open>
  C9, amended. Whenever the encoder resolves, \<open>identifyTree\<close> sends exactly one
  request: it names the model \<open>gemini-2.5-flash\<close>, carries the image part (inline data and
  MIME type of the file) followed by the instruction text, and asks for JSON of the schema
  with the string fields \<open>commonName\<close>, \<open>scientificName\<close>, \<open>description\<close> and the array of
  strings \<open>careTips\<close>, the first three required.
\<close>

theorem C9_one_request_when_encoded:
  assumes "fileToGenerativePart f = Resolved imagePart"
  shows "\<exists>req d. requests_of (fst (identifyTree world f)) = [req]
    \<and> model req = ''gemini-2.5-flash''
    \<and> contents req = [\<lparr>parts = [imagePart, Text ''Identify the tree in this image.'']\<rparr>]
    \<and> imagePart = InlineData d (file_type f)
    \<and> responseMimeType (config req) = ''application/json''
    \<and> schema_type (responseSchema (config req)) = OBJECT
    \<and> map (\<lambda>(name, field). (name, schema_type field))
         (properties (responseSchema (config req)))
       = [(''commonName'', STRING), (''scientificName'', STRING), (''description'', STRING),
          (''careTips'', ARRAY)]
    \<and> map_option (\<lambda>field. map_option schema_type (items field))
         (map_of (properties (responseSchema (config req))) ''careTips'')
       = Some (Some STRING)
    \<and> set (required (responseSchema (config req)))
       = {''commonName'', ''scientificName'', ''description''}"
proof -
  obtain d where "imagePart = InlineData d (file_type f)"
    using imagePart_shape [OF assms] by blast
  then show ?thesis
    using requests_of_identifyTree [OF assms, of world]
    by (simp add: identify_request_def tree_schema_def string_field_def)
qed

theorem C9_one_request_when_encoded_witness:
  "\<exists>req d. requests_of (fst (identifyTree world_oak png_file)) = [req]
    \<and> model req = ''gemini-2.5-flash''
    \<and> contents req = [\<lparr>parts = [InlineData (Some ''iVBORw=='') ''image/png'',
                                  Text ''Identify the tree in this image.'']\<rparr>]
    \<and> InlineData (Some ''iVBORw=='') ''image/png'' = InlineData d (file_type png_file)
    \<and> responseMimeType (config req) = ''application/json''
    \<and> schema_type (responseSchema (config req)) = OBJECT
    \<and> map (\<lambda>(name, field). (name, schema_type field))
         (properties (responseSchema (config req)))
       = [(''commonName'', STRING), (''scientificName'', STRING), (''description'', STRING),
          (''careTips'', ARRAY)]
    \<and> map_option (\<lambda>field. map_option schema_type (items field))
         (map_of (properties (responseSchema (config req))) ''careTips'')
       = Some (Some STRING)
    \<and> set (required (responseSchema (config req)))
       = {''commonName'', ''scientificName'', ''description''}"
  using C9_one_request_when_encoded [OF png_part, of world_oak] .

section \<open>Properties of the component state\<close>

text \<open>
  C7. In every state the primary action control is disabled exactly when no file is
  selected or the loading flag is set, and enabled otherwise.
\<close>

theorem C7_identify_disabled_iff:
  "identifyDisabled (render s) = (selectedFile s = None \<or> isLoading s)"
  by (simp add: render_def)

theorem C7_identify_disabled_iff_witness:
  "identifyDisabled (render initial_ui) = (selectedFile initial_ui = None \<or> isLoading initial_ui)
   \<and> identifyDisabled (render initial_ui)
   \<and> \<not> identifyDisabled (render file_chosen)
   \<and> identifyDisabled (render (fst (handleIdentify_begin file_chosen)))"
  using C7_identify_disabled_iff [of initial_ui] C7_identify_disabled_iff [of file_chosen]
    C7_identify_disabled_iff [of "fst (handleIdentify_begin file_chosen)"]
  by (simp add: initial_ui_def file_chosen_eq handleIdentify_begin_def)

text \<open>
  C10. With no file selected \<open>handleIdentify\<close> returns at once: the state is unchanged,
  \<open>identifyTree\<close> is not called and nothing is sent.
\<close>

theorem C10_identify_without_file_is_noop:
  assumes "selectedFile s = None"
  shows "handleIdentify_begin s = (s, None) \<and> handleIdentify world s = (s, [])
    \<and> step ClickIdentify \<lparr>ui_state = s, inflight = calls\<rparr> = \<lparr>ui_state = s, inflight = calls\<rparr>"
  using assms by (simp add: handleIdentify_begin_def handleIdentify_def render_def)

theorem C10_identify_without_file_is_noop_witness:
  "selectedFile initial_ui = None \<and> handleIdentify_begin initial_ui = (initial_ui, None)
   \<and> handleIdentify world_oak initial_ui = (initial_ui, [])
   \<and> step ClickIdentify initial_app = initial_app"
  using C10_identify_without_file_is_noop [of initial_ui world_oak "[]"]
  by (simp add: initial_ui_def initial_app_def)

text \<open>
  C6. From any state, \<open>handleReset\<close> leaves no selected file, no result, no error and
  the loading flag unset; the object URL of the preview, when there is one, is no longer
  alive; and the primary action control is disabled.
\<close>

theorem C6_reset_clears_everything:
  "selectedFile (handleReset s) = None \<and> treeData (handleReset s) = JNull
   \<and> error (handleReset s) = None \<and> \<not> isLoading (handleReset s)
   \<and> previewUrl (handleReset s) = None
   \<and> liveUrls (handleReset s) = liveUrls s - set_option (previewUrl s)
   \<and> identifyDisabled (render (handleReset s))"
  by (cases "previewUrl s")
    (simp_all add: handleReset_def setSelectedFile_def useMemo_previewUrl_def
      revokeObjectURL_def render_def Let_def)

theorem C6_reset_clears_everything_witness:
  "selectedFile (handleReset file_chosen) = None \<and> treeData (handleReset file_chosen) = JNull
   \<and> error (handleReset file_chosen) = None \<and> \<not> isLoading (handleReset file_chosen)
   \<and> previewUrl (handleReset file_chosen) = None
   \<and> liveUrls file_chosen = {0} \<and> liveUrls (handleReset file_chosen) = {}
   \<and> identifyDisabled (render (handleReset file_chosen))"
  using C6_reset_clears_everything [of file_chosen]
  by (simp add: file_chosen_eq)

text \<open>
  C2 does not hold as stated: choosing a file after a result or an error has been stored
  leaves that result or error in place.
\<close>

theorem C2_counterexample:
  "treeData (handleFileChange [png_file] (fst (handleIdentify world_oak file_chosen))) = oak
   \<and> oak \<noteq> JNull
   \<and> error (handleFileChange [png_file] (fst (handleIdentify world_down file_chosen)))
       = Some (error_template @ ''network down'')"
  by (simp add: handleIdentify_def handleIdentify_begin_def handleIdentify_settle_def
      file_chosen_eq identify_oak identify_down handleFileChange_def setSelectedFile_def
      useMemo_previewUrl_def oak_def handleIdentify_catch_def message_or_default_def
      error_template_def)

text \<open>
  C2, amended. Choosing a file, from any state, makes it the selected file with a fresh
  preview URL and leaves the stored result, the stored error and the loading flag as
  they were; result and error are cleared when identification is next started.
\<close>

theorem C2_selecting_keeps_result_and_error:
  "selectedFile (handleFileChange (f # fs) s) = Some f
   \<and> treeData (handleFileChange (f # fs) s) = treeData s
   \<and> error (handleFileChange (f # fs) s) = error s
   \<and> isLoading (handleFileChange (f # fs) s) = isLoading s
   \<and> previewUrl (handleFileChange (f # fs) s) = Some (urlCount s)
   \<and> treeData (fst (handleIdentify_begin (handleFileChange (f # fs) s))) = JNull
   \<and> error (fst (handleIdentify_begin (handleFileChange (f # fs) s))) = None"
  by (simp add: handleFileChange_def setSelectedFile_def useMemo_previewUrl_def
      handleIdentify_begin_def)

theorem C2_selecting_keeps_result_and_error_witness:
  "selectedFile (handleFileChange [png_file] initial_ui) = Some png_file
   \<and> treeData (handleFileChange [png_file] initial_ui) = JNull
   \<and> error (handleFileChange [png_file] initial_ui) = None
   \<and> \<not> isLoading (handleFileChange [png_file] initial_ui)
   \<and> previewUrl (handleFileChange [png_file] initial_ui) = Some 0"
  using C2_selecting_keeps_result_and_error [of png_file "[]" initial_ui]
  by (simp add: initial_ui_def)

section \<open>Loading, result and error\<close>

lemma stale_run_state:
  "ui_state (run stale_run initial_app) =
     \<lparr>selectedFile = Some png_file, treeData = oak, isLoading = False,
      error = Some (error_template @ ''network down''),
      previewUrl = Some 1, liveUrls = {1}, urlCount = 2\<rparr>"
  by (simp add: stale_run_def initial_app_def initial_ui_def handleFileChange_def
      setSelectedFile_def useMemo_previewUrl_def render_def handleIdentify_begin_def
      handleReset_def revokeObjectURL_def remove_at_def identify_oak identify_down
      handleIdentify_settle_def handleIdentify_catch_def message_of_rethrown
      truthy_string_def Let_def)

text \<open>
  C5 does not hold as stated: nothing cancels a call, so after a reset during loading and
  a second identification the first call can store its result and the second its error.
\<close>

theorem C5_counterexample:
  "treeData (ui_state (run stale_run initial_app)) \<noteq> JNull
   \<and> error (ui_state (run stale_run initial_app)) \<noteq> None
   \<and> \<not> at_most_one_active (ui_state (run stale_run initial_app))"
  by (simp add: stale_run_state at_most_one_active_def oak_def)

lemma settled_or_single_initial: "settled_or_single initial_app"
  by (simp add: settled_or_single_def initial_app_def initial_ui_def)

lemma settled_or_single_exclusive:
  "settled_or_single a \<Longrightarrow> at_most_one_active (ui_state a)"
  by (auto simp: settled_or_single_def at_most_one_active_def split: list.splits)

lemma handleFileChange_frame:
  "treeData (handleFileChange files s) = treeData s"
  "error (handleFileChange files s) = error s"
  "isLoading (handleFileChange files s) = isLoading s"
  by (simp_all add: handleFileChange_def setSelectedFile_def useMemo_previewUrl_def
      split: list.split)

lemma handleReset_clears:
  "treeData (handleReset s) = JNull" "error (handleReset s) = None" "\<not> isLoading (handleReset s)"
  by (simp_all add: handleReset_def setSelectedFile_def useMemo_previewUrl_def
      revokeObjectURL_def Let_def split: option.split)

lemma settled_or_single_step:
  assumes "settled_or_single a" and "starts_idle e a"
  shows "settled_or_single (step e a)"
proof (cases e)
  case (SelectFiles files)
  then show ?thesis
    using assms(1)
    by (simp add: settled_or_single_def handleFileChange_frame split: list.splits)
next
  case ClickIdentify
  show ?thesis
  proof (cases "identifyDisabled (render (ui_state a))")
    case True
    then show ?thesis using assms(1) ClickIdentify by simp
  next
    case False
    then have "inflight a = []"
      using assms(2) ClickIdentify by simp
    then show ?thesis
      using ClickIdentify False
      by (auto simp: settled_or_single_def handleIdentify_begin_def render_def)
  qed
next
  case ClickReset
  then show ?thesis
    using assms(1)
    by (simp add: settled_or_single_def handleReset_clears split: list.splits)
next
  case (Settle i world)
  show ?thesis
  proof (cases "i < length (inflight a)")
    case False
    then show ?thesis using assms(1) Settle by simp
  next
    case True
    then obtain f where single: "inflight a = [f]" and clean: "treeData (ui_state a) = JNull"
      "error (ui_state a) = None"
      using assms(1) by (auto simp: settled_or_single_def split: list.splits)
    then have i: "i = 0" using True by simp
    show ?thesis
    proof (cases "snd (identifyTree world f)")
      case Pending
      then show ?thesis using assms(1) Settle single i by simp
    next
      case (Resolved j)
      then show ?thesis
        using Settle single i clean
        by (simp add: settled_or_single_def remove_at_def handleIdentify_settle_def)
    next
      case (Rejected err)
      then show ?thesis
        using Settle single i clean
        by (simp add: settled_or_single_def remove_at_def handleIdentify_settle_def
            handleIdentify_catch_def split: thrown.split)
    qed
  qed
qed

lemma settled_or_single_run:
  "settled_or_single a \<Longrightarrow> one_call_at_a_time es a \<Longrightarrow> settled_or_single (run es a)"
proof (induction es arbitrary: a)
  case Nil
  then show ?case by simp
next
  case (Cons e es)
  then show ?case by (simp add: settled_or_single_step)
qed

lemma one_call_at_a_time_take:
  "one_call_at_a_time es a \<Longrightarrow> one_call_at_a_time (take n es) a"
proof (induction es arbitrary: a n)
  case Nil
  then show ?case by simp
next
  case (Cons e es)
  then show ?case by (cases n) simp_all
qed

lemma plain_run_one_call: "one_call_at_a_time plain_run initial_app"
  by (simp add: plain_run_def initial_app_def initial_ui_def handleFileChange_def
      setSelectedFile_def useMemo_previewUrl_def render_def handleIdentify_begin_def
      remove_at_def identify_oak identify_down
      handleIdentify_settle_def handleIdentify_catch_def message_of_rethrown
      truthy_string_def Let_def)

text \<open>
  C5, amended. Along every run in which identification is started only while no earlier
  call is in flight, at most one of loading, result and error is active after every
  handler.
\<close>

theorem C5_exclusive_while_one_call_at_a_time:
  assumes "one_call_at_a_time es initial_app"
  shows "\<forall>n. at_most_one_active (ui_state (run (take n es) initial_app))"
  using assms settled_or_single_initial
  by (blast intro: settled_or_single_exclusive settled_or_single_run one_call_at_a_time_take)

theorem C5_exclusive_while_one_call_at_a_time_witness:
  "one_call_at_a_time plain_run initial_app
   \<and> (\<forall>n. at_most_one_active (ui_state (run (take n plain_run) initial_app)))
   \<and> treeData (ui_state (run (take 5 plain_run) initial_app)) = oak"
proof -
  have "treeData (ui_state (run (take 5 plain_run) initial_app)) = oak"
    by (simp add: plain_run_def initial_app_def initial_ui_def handleFileChange_def
      setSelectedFile_def useMemo_previewUrl_def render_def handleIdentify_begin_def
      remove_at_def identify_oak identify_down
      handleIdentify_settle_def handleIdentify_catch_def message_of_rethrown
      truthy_string_def Let_def)
  then show ?thesis
    using C5_exclusive_while_one_call_at_a_time [OF plain_run_one_call] plain_run_one_call
    by simp
qed

end
